theory Spec2Isabelle
  imports Main "HOL-Library.Word"
begin

section \<open>Data model\<close>

text \<open>
  A JavaScript string is a sequence of 16-bit code units, and \<^verbatim>\<open>===\<close> on two strings compares
  the sequences. \<open>str\<close> writes an ASCII literal as such a sequence.
\<close>

type_synonym jstring = "16 word list"

definition str :: "string \<Rightarrow> jstring" where
  "str s = map of_char s"

text \<open>
  A record of the collection is the JSON object \<^verbatim>\<open>{id, title, completed}\<close>. The identifier
  is assigned by the server and only ever compared with \<^verbatim>\<open>===\<close>, which on JSON numbers and
  strings is equality of type and value: \<^verbatim>\<open>1 === "1"\<close> is false.
\<close>

datatype ident = IdNum int | IdStr jstring

record todo =
  todo_id :: ident
  todo_title :: jstring
  todo_completed :: bool

section \<open>Transport module (api.js)\<close>

text \<open>
  What an \<^verbatim>\<open>async\<close> function can reject with: the \<^verbatim>\<open>Error\<close> the module throws itself, with
  its message; the \<^verbatim>\<open>SyntaxError\<close> of \<^verbatim>\<open>res.json()\<close> on a body that is not JSON; the
  \<^verbatim>\<open>TypeError\<close> of \<^verbatim>\<open>fetch\<close> when no response arrives. A promise of a value is a sum, \<open>Inl\<close>
  the rejection.
\<close>

datatype error = Error jstring | SyntaxError | TypeError

type_synonym 'a promise = "error + 'a"

text \<open>
  A response carries the flag \<^verbatim>\<open>res.ok\<close> (status in 200..299) and what \<^verbatim>\<open>res.json()\<close> makes of
  its body: \<open>None\<close> when the body does not decode. \<^verbatim>\<open>await fetch(...)\<close> either yields a
  response or rejects.
\<close>

record 'a response =
  ok :: bool
  json :: "'a option"

datatype 'a fetched = NoResponse | Response "'a response"

text \<open>
  The four requests of the module, by method and path under \<^verbatim>\<open>BASE\<close>:
  \<^verbatim>\<open>GET /todos\<close>, \<^verbatim>\<open>POST /todos\<close> with body \<^verbatim>\<open>{title, completed}\<close>,
  \<^verbatim>\<open>PATCH /todos/:id\<close> with the patch as body, \<^verbatim>\<open>DELETE /todos/:id\<close>.
  The patches the callers build are \<^verbatim>\<open>{ completed }\<close> and \<^verbatim>\<open>{ title }\<close>.
\<close>

datatype patch = Patch_completed bool | Patch_title jstring

datatype request =
    GET_todos
  | POST_todos jstring bool
  | PATCH_todos ident patch
  | DELETE_todos ident

text \<open>
  \<^verbatim>\<open>fetch\<close> sends the request, recorded at the end of the list of requests sent so far, and
  hands back what the server answers; the answer is a parameter.
\<close>

definition fetch :: "request \<Rightarrow> 'a fetched \<Rightarrow> request list \<Rightarrow> 'a fetched \<times> request list" where
  "fetch req reply net = (reply, net @ [req])"

definition res_json :: "'a response \<Rightarrow> 'a promise" where
  "res_json res = (case json res of None \<Rightarrow> Inl SyntaxError | Some v \<Rightarrow> Inr v)"

definition listTodos :: "'a fetched \<Rightarrow> request list \<Rightarrow> 'a promise \<times> request list" where
  "listTodos reply net =
     (case fetch GET_todos reply net of
        (NoResponse, net') \<Rightarrow> (Inl TypeError, net')
      | (Response res, net') \<Rightarrow>
          if \<not> ok res then (Inl (Error (str ''Failed to load todos'')), net')
          else (res_json res, net'))"

definition createTodo :: "jstring \<Rightarrow> 'a fetched \<Rightarrow> request list \<Rightarrow> 'a promise \<times> request list" where
  "createTodo title reply net =
     (case fetch (POST_todos title False) reply net of
        (NoResponse, net') \<Rightarrow> (Inl TypeError, net')
      | (Response res, net') \<Rightarrow>
          if \<not> ok res then (Inl (Error (str ''Failed to create todo'')), net')
          else (res_json res, net'))"

definition updateTodo ::
  "ident \<Rightarrow> patch \<Rightarrow> 'a fetched \<Rightarrow> request list \<Rightarrow> 'a promise \<times> request list" where
  "updateTodo i p reply net =
     (case fetch (PATCH_todos i p) reply net of
        (NoResponse, net') \<Rightarrow> (Inl TypeError, net')
      | (Response res, net') \<Rightarrow>
          if \<not> ok res then (Inl (Error (str ''Failed to update todo'')), net')
          else (res_json res, net'))"

definition deleteTodo :: "ident \<Rightarrow> 'a fetched \<Rightarrow> request list \<Rightarrow> bool promise \<times> request list" where
  "deleteTodo i reply net =
     (case fetch (DELETE_todos i) reply net of
        (NoResponse, net') \<Rightarrow> (Inl TypeError, net')
      | (Response res, net') \<Rightarrow>
          if \<not> ok res then (Inl (Error (str ''Failed to delete todo'')), net')
          else (Inr True, net'))"

section \<open>Root component (App.jsx)\<close>

text \<open>
  The three state cells of \<^verbatim>\<open>App\<close>, and beside them the requests sent so far. A handler takes
  the server's answer to its one request and the state at the time it runs; it returns how
  its promise settles and the state it leaves. \<^verbatim>\<open>setTodos((prev) => ...)\<close> is reached only
  when the \<^verbatim>\<open>await\<close> before it did not throw. The body of an answer to a create or an
  update decodes to a record, the shape the wire protocol gives it; the body of an answer to
  a delete is never read.
\<close>

record world =
  todos :: "todo list"
  loading :: bool
  error :: "jstring option"
  sent :: "request list"

definition handleAdd :: "todo fetched \<Rightarrow> jstring \<Rightarrow> world \<Rightarrow> unit promise \<times> world" where
  "handleAdd reply title w =
     (case createTodo title reply (sent w) of
        (Inl e, net) \<Rightarrow> (Inl e, w\<lparr>sent := net\<rparr>)
      | (Inr created, net) \<Rightarrow> (Inr (), w\<lparr>todos := todos w @ [created], sent := net\<rparr>))"

definition handleToggle :: "todo fetched \<Rightarrow> ident \<Rightarrow> bool \<Rightarrow> world \<Rightarrow> unit promise \<times> world" where
  "handleToggle reply i c w =
     (case updateTodo i (Patch_completed c) reply (sent w) of
        (Inl e, net) \<Rightarrow> (Inl e, w\<lparr>sent := net\<rparr>)
      | (Inr updated, net) \<Rightarrow>
          (Inr (), w\<lparr>todos := map (\<lambda>t. if todo_id t = i then updated else t) (todos w),
                      sent := net\<rparr>))"

definition handleEdit :: "todo fetched \<Rightarrow> ident \<Rightarrow> jstring \<Rightarrow> world \<Rightarrow> unit promise \<times> world" where
  "handleEdit reply i title w =
     (case updateTodo i (Patch_title title) reply (sent w) of
        (Inl e, net) \<Rightarrow> (Inl e, w\<lparr>sent := net\<rparr>)
      | (Inr updated, net) \<Rightarrow>
          (Inr (), w\<lparr>todos := map (\<lambda>t. if todo_id t = i then updated else t) (todos w),
                      sent := net\<rparr>))"

definition handleDelete :: "todo fetched \<Rightarrow> ident \<Rightarrow> world \<Rightarrow> unit promise \<times> world" where
  "handleDelete reply i w =
     (case deleteTodo i reply (sent w) of
        (Inl e, net) \<Rightarrow> (Inl e, w\<lparr>sent := net\<rparr>)
      | (Inr _, net) \<Rightarrow>
          (Inr (), w\<lparr>todos := filter (\<lambda>t. todo_id t \<noteq> i) (todos w), sent := net\<rparr>))"

section \<open>Input and item components (TodoForm.jsx, TodoItem.jsx)\<close>

text \<open>
  \<^verbatim>\<open>String.prototype.trim\<close> drops the white space and the line terminators at both ends:
  tab, line feed, vertical tab, form feed, carriage return, space, the no-break space,
  U+1680, U+2000 to U+200A, the line and paragraph separators, U+202F, U+205F, U+3000 and
  the byte order mark, each one code unit. A string is falsy exactly when it is empty.
\<close>

definition isWhiteSpace :: "16 word \<Rightarrow> bool" where
  "isWhiteSpace c \<longleftrightarrow>
     c \<in> set [0x0009, 0x000A, 0x000B, 0x000C, 0x000D, 0x0020, 0x00A0, 0x1680, 0x2028, 0x2029,
              0x202F, 0x205F, 0x3000, 0xFEFF] \<or> (0x2000 \<le> c \<and> c \<le> 0x200A)"

definition trim :: "jstring \<Rightarrow> jstring" where
  "trim s = rev (dropWhile isWhiteSpace (rev (dropWhile isWhiteSpace s)))"

text \<open>
  \<^verbatim>\<open>submit\<close> of the form: the state is the text of the field, \<^verbatim>\<open>onAdd\<close> is the callback in the
  props, acting on whatever it acts on (\<open>'w\<close>). When \<^verbatim>\<open>await onAdd(...)\<close> throws,
  \<^verbatim>\<open>setTitle("")\<close> is not reached and the rejection is passed on.
  \<^verbatim>\<open>e.preventDefault()\<close> concerns the browser's event alone. \<^verbatim>\<open>save\<close> of an item is built the
  same way, over the record in the props and the two state cells of the item.
\<close>

definition submit ::
  "(jstring \<Rightarrow> 'w \<Rightarrow> unit promise \<times> 'w) \<Rightarrow> jstring \<Rightarrow> 'w \<Rightarrow> unit promise \<times> jstring \<times> 'w" where
  "submit onAdd title w =
     (if trim title = [] then (Inr (), title, w)
      else (case onAdd (trim title) w of
              (Inl e, w') \<Rightarrow> (Inl e, title, w')
            | (Inr _, w') \<Rightarrow> (Inr (), [], w')))"

record item =
  isEditing :: bool
  draft :: jstring

definition save ::
  "(ident \<Rightarrow> jstring \<Rightarrow> 'w \<Rightarrow> unit promise \<times> 'w) \<Rightarrow> todo \<Rightarrow> item \<Rightarrow> 'w \<Rightarrow>
     unit promise \<times> item \<times> 'w" where
  "save onEdit t st w =
     (if trim (draft st) \<noteq> [] \<and> draft st \<noteq> todo_title t then
        (case onEdit (todo_id t) (trim (draft st)) w of
           (Inl e, w') \<Rightarrow> (Inl e, st, w')
         | (Inr _, w') \<Rightarrow> (Inr (), st\<lparr>isEditing := False\<rparr>, w'))
      else (Inr (), st\<lparr>isEditing := False\<rparr>, w))"

section \<open>Sample values\<close>

text \<open>
  The records of the scenarios: the record the initial load returns, the same record once
  toggled, the record a create returns, and a record a create returns under an identifier
  the collection already holds (a server that numbers a new record one above its highest,
  after it deleted record 1 for some other client). Then a state holding a given collection
  with nothing sent yet, and three answers of the server: success with a body, success with
  a body that does not decode, and a non-success status.
\<close>

definition ex_learn :: todo where
  "ex_learn = \<lparr>todo_id = IdNum 1, todo_title = str ''Learn'', todo_completed = False\<rparr>"

definition ex_learn_done :: todo where
  "ex_learn_done = \<lparr>todo_id = IdNum 1, todo_title = str ''Learn'', todo_completed = True\<rparr>"

definition ex_milk :: todo where
  "ex_milk = \<lparr>todo_id = IdNum 2, todo_title = str ''Buy milk'', todo_completed = False\<rparr>"

definition ex_stale :: todo where
  "ex_stale = \<lparr>todo_id = IdNum 1, todo_title = str ''Buy milk'', todo_completed = False\<rparr>"

definition ex_world :: "todo list \<Rightarrow> world" where
  "ex_world ts = \<lparr>todos = ts, loading = False, error = None, sent = []\<rparr>"

definition replied :: "'a \<Rightarrow> 'a fetched" where
  "replied v = Response \<lparr>ok = True, json = Some v\<rparr>"

definition acked :: "'a fetched" where
  "acked = Response \<lparr>ok = True, json = None\<rparr>"

definition refused :: "'a fetched" where
  "refused = Response \<lparr>ok = False, json = None\<rparr>"

text \<open>
  A server that confirms every create with record 2 under the title posted: its answer to
  the create of a title, and the record in that answer.
\<close>

definition echo_record :: "jstring \<Rightarrow> todo" where
  "echo_record t = \<lparr>todo_id = IdNum 2, todo_title = t, todo_completed = False\<rparr>"

definition echo_server :: "jstring \<Rightarrow> todo fetched" where
  "echo_server t = replied (echo_record t)"

section \<open>Facts about the operations\<close>

subsection \<open>Trimming\<close>

lemma trim_Nil_iff: "trim s = [] \<longleftrightarrow> list_all isWhiteSpace s"
  unfolding list_all_iff
proof
  assume "trim s = []"
  then have all: "\<forall>c\<in>set (dropWhile isWhiteSpace s). isWhiteSpace c"
    by (simp add: trim_def dropWhile_eq_Nil_conv)
  have "dropWhile isWhiteSpace s = []"
  proof (rule ccontr)
    assume ne: "dropWhile isWhiteSpace s \<noteq> []"
    then have "\<not> isWhiteSpace (hd (dropWhile isWhiteSpace s))"
      by (rule hd_dropWhile)
    moreover from ne have "hd (dropWhile isWhiteSpace s) \<in> set (dropWhile isWhiteSpace s)"
      by simp
    ultimately show False using all by blast
  qed
  then show "\<forall>c\<in>set s. isWhiteSpace c"
    by (simp add: dropWhile_eq_Nil_conv)
next
  assume "\<forall>c\<in>set s. isWhiteSpace c"
  then have d: "dropWhile isWhiteSpace s = []"
    by (simp add: dropWhile_eq_Nil_conv)
  show "trim s = []"
    unfolding trim_def d by simp
qed

subsection \<open>The transport functions, by the answer they get\<close>

lemma listTodos_eq:
  "listTodos reply net =
     ((case reply of NoResponse \<Rightarrow> Inl TypeError
       | Response res \<Rightarrow>
           if ok res then res_json res else Inl (Error (str ''Failed to load todos''))),
      net @ [GET_todos])"
  by (simp add: listTodos_def fetch_def split: fetched.splits)

lemma createTodo_eq:
  "createTodo title reply net =
     ((case reply of NoResponse \<Rightarrow> Inl TypeError
       | Response res \<Rightarrow>
           if ok res then res_json res else Inl (Error (str ''Failed to create todo''))),
      net @ [POST_todos title False])"
  by (simp add: createTodo_def fetch_def split: fetched.splits)

lemma updateTodo_eq:
  "updateTodo i p reply net =
     ((case reply of NoResponse \<Rightarrow> Inl TypeError
       | Response res \<Rightarrow>
           if ok res then res_json res else Inl (Error (str ''Failed to update todo''))),
      net @ [PATCH_todos i p])"
  by (simp add: updateTodo_def fetch_def split: fetched.splits)

lemma deleteTodo_eq:
  "deleteTodo i reply net =
     ((case reply of NoResponse \<Rightarrow> Inl TypeError
       | Response res \<Rightarrow>
           if ok res then Inr True else Inl (Error (str ''Failed to delete todo''))),
      net @ [DELETE_todos i])"
  by (simp add: deleteTodo_def fetch_def split: fetched.splits)

subsection \<open>The handlers, by how the transport call settles\<close>

lemma handleAdd_Inl:
  "fst (createTodo title reply (sent w)) = Inl e \<Longrightarrow>
   handleAdd reply title w = (Inl e, w\<lparr>sent := sent w @ [POST_todos title False]\<rparr>)"
  by (simp add: handleAdd_def createTodo_eq)

lemma handleAdd_Inr:
  "fst (createTodo title reply (sent w)) = Inr created \<Longrightarrow>
   handleAdd reply title w =
     (Inr (), w\<lparr>todos := todos w @ [created], sent := sent w @ [POST_todos title False]\<rparr>)"
  by (simp add: handleAdd_def createTodo_eq)

lemma handleToggle_Inl:
  "fst (updateTodo i (Patch_completed c) reply (sent w)) = Inl e \<Longrightarrow>
   handleToggle reply i c w =
     (Inl e, w\<lparr>sent := sent w @ [PATCH_todos i (Patch_completed c)]\<rparr>)"
  by (simp add: handleToggle_def updateTodo_eq)

lemma handleToggle_Inr:
  "fst (updateTodo i (Patch_completed c) reply (sent w)) = Inr updated \<Longrightarrow>
   handleToggle reply i c w =
     (Inr (), w\<lparr>todos := map (\<lambda>t. if todo_id t = i then updated else t) (todos w),
                 sent := sent w @ [PATCH_todos i (Patch_completed c)]\<rparr>)"
  by (simp add: handleToggle_def updateTodo_eq)

lemma handleEdit_Inl:
  "fst (updateTodo i (Patch_title title) reply (sent w)) = Inl e \<Longrightarrow>
   handleEdit reply i title w =
     (Inl e, w\<lparr>sent := sent w @ [PATCH_todos i (Patch_title title)]\<rparr>)"
  by (simp add: handleEdit_def updateTodo_eq)

lemma handleEdit_Inr:
  "fst (updateTodo i (Patch_title title) reply (sent w)) = Inr updated \<Longrightarrow>
   handleEdit reply i title w =
     (Inr (), w\<lparr>todos := map (\<lambda>t. if todo_id t = i then updated else t) (todos w),
                 sent := sent w @ [PATCH_todos i (Patch_title title)]\<rparr>)"
  by (simp add: handleEdit_def updateTodo_eq)

lemma handleDelete_Inl:
  "fst (deleteTodo i reply (sent w)) = Inl e \<Longrightarrow>
   handleDelete reply i w = (Inl e, w\<lparr>sent := sent w @ [DELETE_todos i]\<rparr>)"
  by (simp add: handleDelete_def deleteTodo_eq)

lemma handleDelete_Inr:
  "fst (deleteTodo i reply (sent w)) = Inr b \<Longrightarrow>
   handleDelete reply i w =
     (Inr (), w\<lparr>todos := filter (\<lambda>t. todo_id t \<noteq> i) (todos w),
                 sent := sent w @ [DELETE_todos i]\<rparr>)"
  by (simp add: handleDelete_def deleteTodo_eq)

subsection \<open>Replacing and dropping by identifier\<close>

lemma map_replace_absent:
  "i \<notin> todo_id ` set ts \<Longrightarrow> map (\<lambda>t. if todo_id t = i then u else t) ts = ts"
  by (induction ts) auto

lemma filter_drop_absent:
  "i \<notin> todo_id ` set ts \<Longrightarrow> filter (\<lambda>t. todo_id t \<noteq> i) ts = ts"
  by (induction ts) auto

lemma length_filter_drop:
  "length (filter (\<lambda>t. todo_id t \<noteq> i) ts) + length (filter (\<lambda>t. todo_id t = i) ts) = length ts"
  by (induction ts) auto

section \<open>Atomicity of the mutations\<close>

text \<open>
  C1. Whatever the collection, when the transport call of a mutation (add, toggleComplete,
  editTitle, remove) rejects, the handler rejects with the same error and the collection is
  the one it was before; when the call resolves, the handler resolves and the collection is
  the updated one: the returned record appended, the matching elements replaced by the
  returned record, or the matching elements dropped.
\<close>

theorem mutation_atomic:
  "(fst (createTodo title reply (sent w)) = Inl e \<longrightarrow>
      fst (handleAdd reply title w) = Inl e \<and>
      todos (snd (handleAdd reply title w)) = todos w) \<and>
   (fst (updateTodo i (Patch_completed c) reply (sent w)) = Inl e \<longrightarrow>
      fst (handleToggle reply i c w) = Inl e \<and>
      todos (snd (handleToggle reply i c w)) = todos w) \<and>
   (fst (updateTodo i (Patch_title title) reply (sent w)) = Inl e \<longrightarrow>
      fst (handleEdit reply i title w) = Inl e \<and>
      todos (snd (handleEdit reply i title w)) = todos w) \<and>
   (fst (deleteTodo i reply (sent w)) = Inl e \<longrightarrow>
      fst (handleDelete reply i w) = Inl e \<and>
      todos (snd (handleDelete reply i w)) = todos w) \<and>
   (fst (createTodo title reply (sent w)) = Inr u \<longrightarrow>
      fst (handleAdd reply title w) = Inr () \<and>
      todos (snd (handleAdd reply title w)) = todos w @ [u]) \<and>
   (fst (updateTodo i (Patch_completed c) reply (sent w)) = Inr u \<longrightarrow>
      fst (handleToggle reply i c w) = Inr () \<and>
      todos (snd (handleToggle reply i c w)) =
        map (\<lambda>t. if todo_id t = i then u else t) (todos w)) \<and>
   (fst (updateTodo i (Patch_title title) reply (sent w)) = Inr u \<longrightarrow>
      fst (handleEdit reply i title w) = Inr () \<and>
      todos (snd (handleEdit reply i title w)) =
        map (\<lambda>t. if todo_id t = i then u else t) (todos w)) \<and>
   (fst (deleteTodo i reply (sent w)) = Inr b \<longrightarrow>
      fst (handleDelete reply i w) = Inr () \<and>
      todos (snd (handleDelete reply i w)) = filter (\<lambda>t. todo_id t \<noteq> i) (todos w))"
  by (simp add: handleAdd_Inl handleToggle_Inl handleEdit_Inl handleDelete_Inl
      handleAdd_Inr handleToggle_Inr handleEdit_Inr handleDelete_Inr)

text \<open>
  The four handlers on the collection holding the one loaded record, each answered with a
  non-success status: each rejects with the message of its transport call and leaves the
  collection as it was. Then an add that the server confirms.
\<close>

theorem mutation_atomic_witness:
  "fst (handleAdd refused (str ''Buy milk'') (ex_world [ex_learn]))
     = Inl (Error (str ''Failed to create todo'')) \<and>
   todos (snd (handleAdd refused (str ''Buy milk'') (ex_world [ex_learn]))) = [ex_learn] \<and>
   fst (handleToggle refused (IdNum 1) True (ex_world [ex_learn]))
     = Inl (Error (str ''Failed to update todo'')) \<and>
   todos (snd (handleToggle refused (IdNum 1) True (ex_world [ex_learn]))) = [ex_learn] \<and>
   fst (handleEdit refused (IdNum 1) (str ''Learn more'') (ex_world [ex_learn]))
     = Inl (Error (str ''Failed to update todo'')) \<and>
   todos (snd (handleEdit refused (IdNum 1) (str ''Learn more'') (ex_world [ex_learn]))) = [ex_learn] \<and>
   fst (handleDelete refused (IdNum 1) (ex_world [ex_learn]))
     = Inl (Error (str ''Failed to delete todo'')) \<and>
   todos (snd (handleDelete refused (IdNum 1) (ex_world [ex_learn]))) = [ex_learn] \<and>
   fst (handleAdd (replied ex_milk) (str ''Buy milk'') (ex_world [ex_learn])) = Inr () \<and>
   todos (snd (handleAdd (replied ex_milk) (str ''Buy milk'') (ex_world [ex_learn])))
     = [ex_learn, ex_milk]"
proof -
  have c: "fst (createTodo (str ''Buy milk'') (refused :: todo fetched) (sent (ex_world [ex_learn])))
      = Inl (Error (str ''Failed to create todo''))"
    by (simp add: createTodo_eq refused_def)
  have u: "fst (updateTodo (IdNum 1) p (refused :: todo fetched) (sent (ex_world [ex_learn])))
      = Inl (Error (str ''Failed to update todo''))" for p
    by (simp add: updateTodo_eq refused_def)
  have d: "fst (deleteTodo (IdNum 1) (refused :: todo fetched) (sent (ex_world [ex_learn])))
      = Inl (Error (str ''Failed to delete todo''))"
    by (simp add: deleteTodo_eq refused_def)
  have s: "fst (createTodo (str ''Buy milk'') (replied ex_milk) (sent (ex_world [ex_learn])))
      = Inr ex_milk"
    by (simp add: createTodo_eq replied_def res_json_def)
  from c mutation_atomic [where reply = refused and w = "ex_world [ex_learn]"
      and title = "str ''Buy milk''" and e = "Error (str ''Failed to create todo'')"]
  have 1: "fst (handleAdd refused (str ''Buy milk'') (ex_world [ex_learn]))
       = Inl (Error (str ''Failed to create todo'')) \<and>
     todos (snd (handleAdd refused (str ''Buy milk'') (ex_world [ex_learn]))) = todos (ex_world [ex_learn])"
    by blast
  from u mutation_atomic [where reply = refused and w = "ex_world [ex_learn]" and i = "IdNum 1"
      and c = True and title = "str ''Learn more''" and e = "Error (str ''Failed to update todo'')"]
  have 2: "fst (handleToggle refused (IdNum 1) True (ex_world [ex_learn]))
       = Inl (Error (str ''Failed to update todo'')) \<and>
     todos (snd (handleToggle refused (IdNum 1) True (ex_world [ex_learn]))) = todos (ex_world [ex_learn]) \<and>
     fst (handleEdit refused (IdNum 1) (str ''Learn more'') (ex_world [ex_learn]))
       = Inl (Error (str ''Failed to update todo'')) \<and>
     todos (snd (handleEdit refused (IdNum 1) (str ''Learn more'') (ex_world [ex_learn])))
       = todos (ex_world [ex_learn])"
    by blast
  from d mutation_atomic [where reply = refused and w = "ex_world [ex_learn]" and i = "IdNum 1"
      and e = "Error (str ''Failed to delete todo'')"]
  have 3: "fst (handleDelete refused (IdNum 1) (ex_world [ex_learn]))
       = Inl (Error (str ''Failed to delete todo'')) \<and>
     todos (snd (handleDelete refused (IdNum 1) (ex_world [ex_learn]))) = todos (ex_world [ex_learn])"
    by blast
  from s mutation_atomic [where reply = "replied ex_milk" and w = "ex_world [ex_learn]"
      and title = "str ''Buy milk''" and u = ex_milk]
  have 4: "fst (handleAdd (replied ex_milk) (str ''Buy milk'') (ex_world [ex_learn])) = Inr () \<and>
     todos (snd (handleAdd (replied ex_milk) (str ''Buy milk'') (ex_world [ex_learn])))
       = todos (ex_world [ex_learn]) @ [ex_milk]"
    by blast
  have t: "todos (ex_world [ex_learn]) = [ex_learn]"
    by (simp add: ex_world_def)
  from 1 2 3 4 show ?thesis
    unfolding t by simp
qed

section \<open>Adding\<close>

text \<open>
  C2. The answer of the server to a create depends on the title posted: \<open>server t\<close> is its
  answer to the create of \<open>t\<close>, and the add callback of the root component against that
  server is \<open>\<lambda>t. handleAdd (server t) t\<close>. Assume the server confirms every create with a
  record that carries the title posted. Then for a text that is not empty once trimmed,
  submitted through the form: the submit resolves and the field is cleared, the one request
  sent is the create of the trimmed text, the collection is one longer than before, its
  last element is the record the server returned for the trimmed text, whose title is the
  trimmed text, and the elements before it are the collection as it was.
\<close>

theorem add_appends_submitted_title:
  "\<not> list_all isWhiteSpace title \<Longrightarrow>
   \<forall>t. fst (createTodo t (server t) (sent w)) = Inr (created t) \<and> todo_title (created t) = t \<Longrightarrow>
   fst (submit (\<lambda>t. handleAdd (server t) t) title w) = Inr () \<and>
   fst (snd (submit (\<lambda>t. handleAdd (server t) t) title w)) = [] \<and>
   sent (snd (snd (submit (\<lambda>t. handleAdd (server t) t) title w)))
     = sent w @ [POST_todos (trim title) False] \<and>
   length (todos (snd (snd (submit (\<lambda>t. handleAdd (server t) t) title w))))
     = length (todos w) + 1 \<and>
   last (todos (snd (snd (submit (\<lambda>t. handleAdd (server t) t) title w)))) = created (trim title) \<and>
   todo_title (last (todos (snd (snd (submit (\<lambda>t. handleAdd (server t) t) title w)))))
     = trim title \<and>
   butlast (todos (snd (snd (submit (\<lambda>t. handleAdd (server t) t) title w)))) = todos w"
proof -
  assume blank: "\<not> list_all isWhiteSpace title"
  assume echo: "\<forall>t. fst (createTodo t (server t) (sent w)) = Inr (created t) \<and>
    todo_title (created t) = t"
  from blank have ne: "trim title \<noteq> []"
    by (simp add: trim_Nil_iff)
  from echo have c: "fst (createTodo (trim title) (server (trim title)) (sent w))
      = Inr (created (trim title))"
    and ti: "todo_title (created (trim title)) = trim title"
    by simp_all
  have "submit (\<lambda>t. handleAdd (server t) t) title w =
      (Inr (), [], w\<lparr>todos := todos w @ [created (trim title)],
                      sent := sent w @ [POST_todos (trim title) False]\<rparr>)"
    using ne by (simp add: submit_def handleAdd_Inr [OF c])
  with ti show ?thesis
    by simp
qed

text \<open>
  The add scenario of the specification, typed with blanks around the title, against a
  server that numbers the new record 2 and gives it the title posted: the request is the
  create of \<^verbatim>\<open>Buy milk\<close>, the collection grows from one record to two, and the last one is
  the record titled \<^verbatim>\<open>Buy milk\<close>, not the text as typed.
\<close>

theorem add_appends_submitted_title_witness:
  "\<not> list_all isWhiteSpace (str ''  Buy milk '') \<and>
   trim (str ''  Buy milk '') = str ''Buy milk'' \<and>
   str ''  Buy milk '' \<noteq> str ''Buy milk'' \<and>
   fst (submit (\<lambda>t. handleAdd (echo_server t) t) (str ''  Buy milk '') (ex_world [ex_learn]))
     = Inr () \<and>
   sent (snd (snd
     (submit (\<lambda>t. handleAdd (echo_server t) t) (str ''  Buy milk '') (ex_world [ex_learn]))))
     = [POST_todos (str ''Buy milk'') False] \<and>
   length (todos (snd (snd
     (submit (\<lambda>t. handleAdd (echo_server t) t) (str ''  Buy milk '') (ex_world [ex_learn])))))
     = 2 \<and>
   last (todos (snd (snd
     (submit (\<lambda>t. handleAdd (echo_server t) t) (str ''  Buy milk '') (ex_world [ex_learn])))))
     = ex_milk"
proof -
  have t: "trim (str ''  Buy milk '') = str ''Buy milk''"
    by (simp add: trim_def isWhiteSpace_def str_def)
  have ws: "\<not> list_all isWhiteSpace (str ''  Buy milk '')"
    by (simp add: isWhiteSpace_def str_def)
  have d: "str ''  Buy milk '' \<noteq> str ''Buy milk''"
    by (simp add: str_def)
  have echo: "\<forall>t. fst (createTodo t (echo_server t) (sent (ex_world [ex_learn])))
        = Inr (echo_record t) \<and>
      todo_title (echo_record t) = t"
    by (simp add: createTodo_eq echo_server_def echo_record_def replied_def res_json_def)
  have m: "echo_record (str ''Buy milk'') = ex_milk"
    by (simp add: echo_record_def ex_milk_def)
  have l: "length (todos (ex_world [ex_learn])) + 1 = 2"
    and s: "sent (ex_world [ex_learn]) = []"
    by (simp_all add: ex_world_def)
  from add_appends_submitted_title [OF ws echo] show ?thesis
    unfolding t l s m using ws d t by simp
qed

section \<open>Toggling and editing\<close>

text \<open>
  C3. Whatever the collection, for an identifier that occurs in it, a toggleComplete whose
  update resolves to a record leaves a collection of the same length in which every
  position holds the returned record where the element there had the identifier, and the
  element it held before everywhere else; the returned record is in the collection.
\<close>

theorem toggle_replaces_only_target:
  "i \<in> todo_id ` set (todos w) \<Longrightarrow>
   fst (updateTodo i (Patch_completed c) reply (sent w)) = Inr updated \<Longrightarrow>
   fst (handleToggle reply i c w) = Inr () \<and>
   length (todos (snd (handleToggle reply i c w))) = length (todos w) \<and>
   (\<forall>k<length (todos w).
      todos (snd (handleToggle reply i c w)) ! k =
        (if todo_id (todos w ! k) = i then updated else todos w ! k)) \<and>
   updated \<in> set (todos (snd (handleToggle reply i c w)))"
  by (auto simp add: handleToggle_Inr)

text \<open>
  The toggle scenario of the specification with a second record beside the first: record 1
  becomes the record the server returned, record 2 stays where and what it was.
\<close>

theorem toggle_replaces_only_target_witness:
  "IdNum 1 \<in> todo_id ` set (todos (ex_world [ex_learn, ex_milk])) \<and>
   fst (handleToggle (replied ex_learn_done) (IdNum 1) True (ex_world [ex_learn, ex_milk])) = Inr () \<and>
   todos (snd (handleToggle (replied ex_learn_done) (IdNum 1) True (ex_world [ex_learn, ex_milk])))
     = [ex_learn_done, ex_milk]"
proof -
  have p: "IdNum 1 \<in> todo_id ` set (todos (ex_world [ex_learn, ex_milk]))"
    by (simp add: ex_world_def ex_learn_def)
  have s: "fst (updateTodo (IdNum 1) (Patch_completed True) (replied ex_learn_done)
             (sent (ex_world [ex_learn, ex_milk]))) = Inr ex_learn_done"
    by (simp add: updateTodo_eq replied_def res_json_def)
  let ?ts = "todos (snd (handleToggle (replied ex_learn_done) (IdNum 1) True
                           (ex_world [ex_learn, ex_milk])))"
  from toggle_replaces_only_target [OF p s]
  have r: "fst (handleToggle (replied ex_learn_done) (IdNum 1) True (ex_world [ex_learn, ex_milk]))
      = Inr ()"
    and l: "length ?ts = 2"
    and e: "\<forall>k<2. ?ts ! k = (if todo_id ([ex_learn, ex_milk] ! k) = IdNum 1 then ex_learn_done
                                else [ex_learn, ex_milk] ! k)"
    by (simp_all add: ex_world_def)
  from e have "?ts ! 0 = ex_learn_done" and "?ts ! 1 = ex_milk"
    by (simp_all add: ex_learn_def ex_milk_def)
  with l have "?ts = [ex_learn_done, ex_milk]"
    by (simp add: list_eq_iff_nth_eq less_Suc_eq numeral_2_eq_2)
  with p r show ?thesis by simp
qed

text \<open>
  C9. Whatever the collection, for an identifier that occurs in none of its elements, a
  toggleComplete or an editTitle whose update resolves leaves the collection as it was
  (the handler resolves all the same).
\<close>

theorem update_absent_id_unchanged:
  "i \<notin> todo_id ` set (todos w) \<Longrightarrow>
   (fst (updateTodo i (Patch_completed c) reply (sent w)) = Inr updated \<longrightarrow>
      fst (handleToggle reply i c w) = Inr () \<and>
      todos (snd (handleToggle reply i c w)) = todos w) \<and>
   (fst (updateTodo i (Patch_title title) reply (sent w)) = Inr updated \<longrightarrow>
      fst (handleEdit reply i title w) = Inr () \<and>
      todos (snd (handleEdit reply i title w)) = todos w)"
  by (simp add: handleToggle_Inr handleEdit_Inr map_replace_absent)

text \<open>Identifier 7 is in neither record: both handlers resolve and nothing changes.\<close>

theorem update_absent_id_unchanged_witness:
  "IdNum 7 \<notin> todo_id ` set (todos (ex_world [ex_learn, ex_milk])) \<and>
   fst (handleToggle (replied ex_learn_done) (IdNum 7) True (ex_world [ex_learn, ex_milk])) = Inr () \<and>
   todos (snd (handleToggle (replied ex_learn_done) (IdNum 7) True (ex_world [ex_learn, ex_milk])))
     = [ex_learn, ex_milk] \<and>
   fst (handleEdit (replied ex_learn_done) (IdNum 7) (str ''Learn'') (ex_world [ex_learn, ex_milk]))
     = Inr () \<and>
   todos (snd (handleEdit (replied ex_learn_done) (IdNum 7) (str ''Learn'')
                 (ex_world [ex_learn, ex_milk])))
     = [ex_learn, ex_milk]"
proof -
  have a: "IdNum 7 \<notin> todo_id ` set (todos (ex_world [ex_learn, ex_milk]))"
    by (simp add: ex_world_def ex_learn_def ex_milk_def)
  have u: "fst (updateTodo (IdNum 7) p (replied ex_learn_done) (sent (ex_world [ex_learn, ex_milk])))
      = Inr ex_learn_done" for p
    by (simp add: updateTodo_eq replied_def res_json_def)
  have t: "todos (ex_world [ex_learn, ex_milk]) = [ex_learn, ex_milk]"
    by (simp add: ex_world_def)
  from update_absent_id_unchanged
    [OF a, of True "replied ex_learn_done" ex_learn_done "str ''Learn''"] u a
  show ?thesis
    unfolding t by blast
qed

section \<open>Removing\<close>

text \<open>
  A collection in which two records share identifier 1, as an add leaves it when the
  server numbers the new record with an identifier the collection still holds: the remove
  of 1 resolves and drops both, two elements fewer and not one.
\<close>

theorem remove_one_fewer_counterexample:
  "IdNum 1 \<in> todo_id ` set (todos (ex_world [ex_learn, ex_stale])) \<and>
   fst (handleDelete acked (IdNum 1) (ex_world [ex_learn, ex_stale])) = Inr () \<and>
   length (todos (ex_world [ex_learn, ex_stale])) = 2 \<and>
   length (todos (snd (handleDelete acked (IdNum 1) (ex_world [ex_learn, ex_stale])))) = 0"
  by (simp add: handleDelete_def deleteTodo_eq acked_def ex_world_def ex_stale_def ex_learn_def)

text \<open>
  C5, amended. Whatever the collection, for an identifier that exactly one of its elements
  has, a remove whose delete resolves leaves a collection with exactly one element fewer and
  no element with that identifier.
\<close>

theorem remove_single_occurrence:
  "length (filter (\<lambda>t. todo_id t = i) (todos w)) = 1 \<Longrightarrow>
   fst (deleteTodo i reply (sent w)) = Inr b \<Longrightarrow>
   fst (handleDelete reply i w) = Inr () \<and>
   length (todos (snd (handleDelete reply i w))) + 1 = length (todos w) \<and>
   i \<notin> todo_id ` set (todos (snd (handleDelete reply i w)))"
  using length_filter_drop [of i "todos w"] by (auto simp add: handleDelete_Inr)

text \<open>Two records with distinct identifiers, the first removed: one is left, and not it.\<close>

theorem remove_single_occurrence_witness:
  "length (filter (\<lambda>t. todo_id t = IdNum 1) (todos (ex_world [ex_learn, ex_milk]))) = 1 \<and>
   fst (handleDelete acked (IdNum 1) (ex_world [ex_learn, ex_milk])) = Inr () \<and>
   length (todos (snd (handleDelete acked (IdNum 1) (ex_world [ex_learn, ex_milk])))) + 1 = 2 \<and>
   IdNum 1 \<notin> todo_id ` set (todos (snd (handleDelete acked (IdNum 1) (ex_world [ex_learn, ex_milk]))))"
proof -
  have o: "length (filter (\<lambda>t. todo_id t = IdNum 1) (todos (ex_world [ex_learn, ex_milk]))) = 1"
    by (simp add: ex_world_def ex_learn_def ex_milk_def)
  have d: "fst (deleteTodo (IdNum 1) acked (sent (ex_world [ex_learn, ex_milk]))) = Inr True"
    by (simp add: deleteTodo_eq acked_def)
  have l: "length (todos (ex_world [ex_learn, ex_milk])) = 2"
    by (simp add: ex_world_def)
  from remove_single_occurrence [OF o d] o show ?thesis
    unfolding l by blast
qed

text \<open>
  C10. Whatever the collection, a remove whose delete resolves leaves exactly the elements
  whose identifier is not the removed one, in their order: every element with the
  identifier is dropped, however many there are, and when there is none the collection is
  as it was.
\<close>

theorem remove_drops_every_match:
  "fst (deleteTodo i reply (sent w)) = Inr b \<Longrightarrow>
   fst (handleDelete reply i w) = Inr () \<and>
   todos (snd (handleDelete reply i w)) = filter (\<lambda>t. todo_id t \<noteq> i) (todos w) \<and>
   (\<forall>t\<in>set (todos (snd (handleDelete reply i w))). todo_id t \<noteq> i) \<and>
   length (todos (snd (handleDelete reply i w))) + length (filter (\<lambda>t. todo_id t = i) (todos w))
     = length (todos w) \<and>
   (i \<notin> todo_id ` set (todos w) \<longrightarrow> todos (snd (handleDelete reply i w)) = todos w)"
  by (simp add: handleDelete_Inr length_filter_drop filter_drop_absent)

text \<open>
  Identifier 1 at the first and the third place: removing it leaves the second record
  alone. Identifier 7 at no place: removing it leaves all three.
\<close>

theorem remove_drops_every_match_witness:
  "fst (handleDelete acked (IdNum 1) (ex_world [ex_learn, ex_milk, ex_stale])) = Inr () \<and>
   todos (snd (handleDelete acked (IdNum 1) (ex_world [ex_learn, ex_milk, ex_stale]))) = [ex_milk] \<and>
   todos (snd (handleDelete acked (IdNum 7) (ex_world [ex_learn, ex_milk, ex_stale])))
     = [ex_learn, ex_milk, ex_stale]"
proof -
  have d: "fst (deleteTodo j acked (sent (ex_world [ex_learn, ex_milk, ex_stale]))) = Inr True" for j
    by (simp add: deleteTodo_eq acked_def)
  from remove_drops_every_match [OF d [of "IdNum 1"]] remove_drops_every_match [OF d [of "IdNum 7"]]
  show ?thesis
    by (simp add: ex_world_def ex_learn_def ex_milk_def ex_stale_def)
qed

section \<open>Adding, then removing\<close>

text \<open>
  The collection holds record 1; the create resolves to a record that the server numbered 1
  as well; the remove of the new record's identifier takes both records away, and what is
  left is empty, not the collection before the add.
\<close>

theorem add_then_remove_counterexample:
  "fst (handleAdd (replied ex_stale) (str ''Buy milk'') (ex_world [ex_learn])) = Inr () \<and>
   fst (handleDelete acked (todo_id ex_stale)
          (snd (handleAdd (replied ex_stale) (str ''Buy milk'') (ex_world [ex_learn])))) = Inr () \<and>
   todos (snd (handleDelete acked (todo_id ex_stale)
          (snd (handleAdd (replied ex_stale) (str ''Buy milk'') (ex_world [ex_learn]))))) = [] \<and>
   todos (ex_world [ex_learn]) = [ex_learn]"
  by (simp add: handleAdd_def handleDelete_def createTodo_eq deleteTodo_eq res_json_def
      replied_def acked_def ex_world_def ex_stale_def ex_learn_def)

text \<open>
  C4, amended. Whatever the collection, an add whose create resolves to a record with an
  identifier that no element of the collection has, followed by a remove of that
  identifier whose delete resolves, leaves the collection that was there before the add.
\<close>

theorem add_then_remove_fresh:
  "todo_id created \<notin> todo_id ` set (todos w) \<Longrightarrow>
   fst (createTodo title reply (sent w)) = Inr created \<Longrightarrow>
   fst (deleteTodo (todo_id created) reply' (sent (snd (handleAdd reply title w)))) = Inr b \<Longrightarrow>
   fst (handleAdd reply title w) = Inr () \<and>
   fst (handleDelete reply' (todo_id created) (snd (handleAdd reply title w))) = Inr () \<and>
   todos (snd (handleDelete reply' (todo_id created) (snd (handleAdd reply title w)))) = todos w"
  by (simp add: handleAdd_Inr handleDelete_Inr filter_drop_absent)

text \<open>The add scenario of the specification, undone: record 2 comes and goes.\<close>

theorem add_then_remove_fresh_witness:
  "todo_id ex_milk \<notin> todo_id ` set (todos (ex_world [ex_learn])) \<and>
   fst (handleAdd (replied ex_milk) (str ''Buy milk'') (ex_world [ex_learn])) = Inr () \<and>
   todos (snd (handleAdd (replied ex_milk) (str ''Buy milk'') (ex_world [ex_learn])))
     = [ex_learn, ex_milk] \<and>
   todos (snd (handleDelete acked (todo_id ex_milk)
            (snd (handleAdd (replied ex_milk) (str ''Buy milk'') (ex_world [ex_learn])))))
     = [ex_learn]"
proof -
  have f: "todo_id ex_milk \<notin> todo_id ` set (todos (ex_world [ex_learn]))"
    by (simp add: ex_world_def ex_learn_def ex_milk_def)
  have c: "fst (createTodo (str ''Buy milk'') (replied ex_milk) (sent (ex_world [ex_learn])))
      = Inr ex_milk"
    by (simp add: createTodo_eq replied_def res_json_def)
  have d: "fst (deleteTodo (todo_id ex_milk) acked
             (sent (snd (handleAdd (replied ex_milk) (str ''Buy milk'') (ex_world [ex_learn])))))
      = Inr True"
    by (simp add: deleteTodo_eq acked_def)
  have a: "todos (snd (handleAdd (replied ex_milk) (str ''Buy milk'') (ex_world [ex_learn])))
      = [ex_learn, ex_milk]"
    by (simp add: handleAdd_def createTodo_eq replied_def res_json_def ex_world_def)
  have t: "todos (ex_world [ex_learn]) = [ex_learn]"
    by (simp add: ex_world_def)
  from add_then_remove_fresh [OF f c d] f a show ?thesis
    unfolding t by blast
qed

section \<open>Saving an edit, submitting the form\<close>

text \<open>
  C6. Whatever the record, the draft, the edit callback and the state the callback acts on:
  when the draft is the record's title, or is empty or white space only, save resolves,
  leaves edit mode, and hands back the state it was given. The callback has no part in the
  result, over any state it might count its calls in: it is not invoked, no request is sent
  and the collection is not touched.
\<close>

theorem save_noop:
  "draft st = todo_title t \<or> list_all isWhiteSpace (draft st) \<Longrightarrow>
   save onEdit t st w = (Inr (), st\<lparr>isEditing := False\<rparr>, w)"
  by (auto simp add: save_def trim_Nil_iff)

text \<open>
  Saving the unchanged title, and saving two blanks, with the root component's edit handler
  as the callback: the state comes back with its collection and with no request sent.
\<close>

theorem save_noop_witness:
  "save (handleEdit refused) ex_learn \<lparr>isEditing = True, draft = str ''Learn''\<rparr> (ex_world [ex_learn])
     = (Inr (), \<lparr>isEditing = False, draft = str ''Learn''\<rparr>, ex_world [ex_learn]) \<and>
   list_all isWhiteSpace (str ''  '') \<and>
   save (handleEdit (replied ex_milk)) ex_learn \<lparr>isEditing = True, draft = str ''  ''\<rparr>
       (ex_world [ex_learn])
     = (Inr (), \<lparr>isEditing = False, draft = str ''  ''\<rparr>, ex_world [ex_learn]) \<and>
   sent (ex_world [ex_learn]) = []"
proof -
  have ws: "list_all isWhiteSpace (str ''  '')"
    by (simp add: isWhiteSpace_def str_def)
  have "draft \<lparr>isEditing = True, draft = str ''Learn''\<rparr> = todo_title ex_learn"
    by (simp add: ex_learn_def)
  then have 1: "draft \<lparr>isEditing = True, draft = str ''Learn''\<rparr> = todo_title ex_learn \<or>
      list_all isWhiteSpace (draft \<lparr>isEditing = True, draft = str ''Learn''\<rparr>)" ..
  from ws have 2: "draft \<lparr>isEditing = True, draft = str ''  ''\<rparr> = todo_title ex_learn \<or>
      list_all isWhiteSpace (draft \<lparr>isEditing = True, draft = str ''  ''\<rparr>)"
    by simp
  have s: "sent (ex_world [ex_learn]) = []"
    by (simp add: ex_world_def)
  from save_noop [OF 1, of "handleEdit refused" "ex_world [ex_learn]"]
    save_noop [OF 2, of "handleEdit (replied ex_milk)" "ex_world [ex_learn]"] ws s
  show ?thesis by simp
qed

text \<open>
  C7. A text that is empty or white space only: submit resolves and hands back the field
  and the state as they were, whatever the add callback is; with the root component's add
  handler no request is sent and the collection is not touched. Any other text: the add
  callback is run on the trimmed text; when it rejects, submit rejects with its error and
  the field keeps the text; when it resolves, submit resolves and the field is empty. With
  the root component's add handler the one request sent is the create of the trimmed text.
\<close>

theorem submit_blank_or_trimmed:
  "(list_all isWhiteSpace title \<longrightarrow>
      submit onAdd title w = (Inr (), title, w) \<and>
      submit (handleAdd reply) title v = (Inr (), title, v)) \<and>
   (\<not> list_all isWhiteSpace title \<longrightarrow>
      (\<forall>e w'. onAdd (trim title) w = (Inl e, w') \<longrightarrow> submit onAdd title w = (Inl e, title, w')) \<and>
      (\<forall>u w'. onAdd (trim title) w = (Inr u, w') \<longrightarrow> submit onAdd title w = (Inr (), [], w')) \<and>
      sent (snd (snd (submit (handleAdd reply) title v))) = sent v @ [POST_todos (trim title) False])"
  by (auto simp add: submit_def trim_Nil_iff handleAdd_def createTodo_eq
      split: prod.splits sum.splits)

text \<open>
  One blank submitted: nothing happens. \<^verbatim>\<open> Buy milk\<close> submitted and refused by the server:
  the rejection comes through and the field keeps its text. The same submitted and
  confirmed: the field is empty and the one request is the create of \<^verbatim>\<open>Buy milk\<close>.
\<close>

theorem submit_blank_or_trimmed_witness:
  "list_all isWhiteSpace (str '' '') \<and>
   submit (handleAdd (replied ex_milk)) (str '' '') (ex_world [ex_learn])
     = (Inr (), str '' '', ex_world [ex_learn]) \<and>
   \<not> list_all isWhiteSpace (str '' Buy milk'') \<and>
   fst (submit (handleAdd refused) (str '' Buy milk'') (ex_world [ex_learn]))
     = Inl (Error (str ''Failed to create todo'')) \<and>
   fst (snd (submit (handleAdd refused) (str '' Buy milk'') (ex_world [ex_learn])))
     = str '' Buy milk'' \<and>
   fst (submit (handleAdd (replied ex_milk)) (str '' Buy milk'') (ex_world [ex_learn])) = Inr () \<and>
   fst (snd (submit (handleAdd (replied ex_milk)) (str '' Buy milk'') (ex_world [ex_learn]))) = [] \<and>
   sent (snd (snd (submit (handleAdd (replied ex_milk)) (str '' Buy milk'') (ex_world [ex_learn]))))
     = [POST_todos (str ''Buy milk'') False]"
proof -
  have b: "list_all isWhiteSpace (str '' '')"
    by (simp add: isWhiteSpace_def str_def)
  have n: "\<not> list_all isWhiteSpace (str '' Buy milk'')"
    by (simp add: isWhiteSpace_def str_def)
  have t: "trim (str '' Buy milk'') = str ''Buy milk''"
    by (simp add: trim_def isWhiteSpace_def str_def)
  have r: "handleAdd refused (str ''Buy milk'') (ex_world [ex_learn])
      = (Inl (Error (str ''Failed to create todo'')),
         (ex_world [ex_learn])\<lparr>sent := [POST_todos (str ''Buy milk'') False]\<rparr>)"
    by (simp add: handleAdd_def createTodo_eq refused_def ex_world_def)
  have s: "handleAdd (replied ex_milk) (str ''Buy milk'') (ex_world [ex_learn])
      = (Inr (), (ex_world [ex_learn])\<lparr>todos := [ex_learn, ex_milk],
                   sent := [POST_todos (str ''Buy milk'') False]\<rparr>)"
    by (simp add: handleAdd_def createTodo_eq replied_def res_json_def ex_world_def)
  from submit_blank_or_trimmed [of "str '' ''" "handleAdd (replied ex_milk)" "ex_world [ex_learn]"
      "replied ex_milk" "ex_world [ex_learn]"] b
  have 1: "submit (handleAdd (replied ex_milk)) (str '' '') (ex_world [ex_learn])
      = (Inr (), str '' '', ex_world [ex_learn])"
    by blast
  from submit_blank_or_trimmed [of "str '' Buy milk''" "handleAdd refused" "ex_world [ex_learn]"
      refused "ex_world [ex_learn]"] n r
  have 2: "submit (handleAdd refused) (str '' Buy milk'') (ex_world [ex_learn])
      = (Inl (Error (str ''Failed to create todo'')), str '' Buy milk'',
         (ex_world [ex_learn])\<lparr>sent := [POST_todos (str ''Buy milk'') False]\<rparr>)"
    unfolding t by blast
  from submit_blank_or_trimmed [of "str '' Buy milk''" "handleAdd (replied ex_milk)"
      "ex_world [ex_learn]" "replied ex_milk" "ex_world [ex_learn]"] n s
  have 3: "submit (handleAdd (replied ex_milk)) (str '' Buy milk'') (ex_world [ex_learn])
      = (Inr (), [], (ex_world [ex_learn])\<lparr>todos := [ex_learn, ex_milk],
                       sent := [POST_todos (str ''Buy milk'') False]\<rparr>)"
    unfolding t by blast
  from b n show ?thesis
    unfolding 1 2 3 by simp
qed

section \<open>Outcomes of the transport functions\<close>

text \<open>
  A response with a success status whose body is not JSON: the list operation rejects, and
  with the decoder's error, not with its own message.
\<close>

theorem transport_decode_counterexample:
  "ok \<lparr>ok = True, json = (None :: todo list option)\<rparr> \<and>
   fst (listTodos (Response \<lparr>ok = True, json = (None :: todo list option)\<rparr>) []) = Inl SyntaxError \<and>
   Inl SyntaxError \<noteq> (Inl (Error (str ''Failed to load todos'')) :: todo list promise)"
  by (simp add: listTodos_def fetch_def res_json_def)

text \<open>
  C8, amended. Given a response, each of the four transport operations rejects with its own
  fixed message (\<^verbatim>\<open>Failed to load todos\<close>, \<^verbatim>\<open>Failed to create todo\<close>,
  \<^verbatim>\<open>Failed to update todo\<close>, \<^verbatim>\<open>Failed to delete todo\<close>) if and only if the response has a
  non-success status. On a success status list, create and update resolve to the decoded
  body when the body decodes and reject with the decoder's error when it does not; delete
  resolves to \<^verbatim>\<open>true\<close> whatever the body.
\<close>

theorem transport_status_and_message:
  "(fst (listTodos (Response res) net) = Inl (Error (str ''Failed to load todos'')) \<longleftrightarrow> \<not> ok res) \<and>
   (fst (createTodo title (Response res) net) = Inl (Error (str ''Failed to create todo''))
      \<longleftrightarrow> \<not> ok res) \<and>
   (fst (updateTodo i p (Response res) net) = Inl (Error (str ''Failed to update todo''))
      \<longleftrightarrow> \<not> ok res) \<and>
   (fst (deleteTodo i (Response res') net) = Inl (Error (str ''Failed to delete todo''))
      \<longleftrightarrow> \<not> ok res') \<and>
   (ok res \<longrightarrow>
      fst (listTodos (Response res) net)
        = (case json res of None \<Rightarrow> Inl SyntaxError | Some v \<Rightarrow> Inr v) \<and>
      fst (createTodo title (Response res) net)
        = (case json res of None \<Rightarrow> Inl SyntaxError | Some v \<Rightarrow> Inr v) \<and>
      fst (updateTodo i p (Response res) net)
        = (case json res of None \<Rightarrow> Inl SyntaxError | Some v \<Rightarrow> Inr v)) \<and>
   (ok res' \<longrightarrow> fst (deleteTodo i (Response res') net) = Inr True)"
  by (simp add: listTodos_eq createTodo_eq updateTodo_eq deleteTodo_eq res_json_def
      split: option.splits)

text \<open>
  The update of the toggle scenario and a delete, each once confirmed and once answered
  with a non-success status.
\<close>

theorem transport_status_and_message_witness:
  "fst (updateTodo (IdNum 1) (Patch_completed True) (replied ex_learn_done) []) = Inr ex_learn_done \<and>
   fst (deleteTodo (IdNum 1) (acked :: todo fetched) []) = Inr True \<and>
   fst (updateTodo (IdNum 1) (Patch_completed True) (refused :: todo fetched) [])
     = Inl (Error (str ''Failed to update todo'')) \<and>
   fst (deleteTodo (IdNum 1) (refused :: todo fetched) []) = Inl (Error (str ''Failed to delete todo''))"
  using transport_status_and_message [of "\<lparr>ok = True, json = Some ex_learn_done\<rparr>" "[]" "[]"
      "IdNum 1" "Patch_completed True" "\<lparr>ok = True, json = (None :: todo option)\<rparr>"]
    transport_status_and_message [of "\<lparr>ok = False, json = (None :: todo option)\<rparr>" "[]" "[]"
      "IdNum 1" "Patch_completed True" "\<lparr>ok = False, json = (None :: todo option)\<rparr>"]
  by (simp add: replied_def acked_def refused_def)

end
